theory Spec2Isabelle
  imports
    Main
    "HOL-Library.Finite_Map"
    "HOL-Library.Sublist"
    "HOL-Library.Char_ord"
    "HOL-Library.List_Lexorder"
begin

section \<open>Go values used by the rule catalogs\<close>

text \<open>
  A Go pointer \<^verbatim>\<open>*T\<close> is an \<open>option\<close>: \<open>None\<close> is the nil pointer. Reading through a
  nil pointer and a failed single-value type assertion \<^verbatim>\<open>target.(*T)\<close> are the two
  run-time panics the source can raise; a computation that may panic returns
  \<open>panic + 'a\<close> with \<open>Inl\<close> the panic.
\<close>

datatype panic = TypeAssertionPanic | NilDereference

fun deref :: "'a option \<Rightarrow> panic + 'a" where
  "deref None = Inl NilDereference"
| "deref (Some x) = Inr x"

definition and_then :: "panic + 'a \<Rightarrow> ('a \<Rightarrow> panic + 'b) \<Rightarrow> panic + 'b" where
  "and_then m f = (case m of Inl p \<Rightarrow> Inl p | Inr x \<Rightarrow> f x)"

text \<open>
  Strings are byte sequences. \<^verbatim>\<open>strings.ToLower\<close> is modelled on ASCII bytes, where it
  maps \<open>A\<close>..\<open>Z\<close> to \<open>a\<close>..\<open>z\<close> and keeps every other byte (Azure resource identifiers
  are ASCII; Go additionally lower-cases non-ASCII runes, which is not modelled).
  \<^verbatim>\<open>strings.HasPrefix\<close> and \<^verbatim>\<open>strings.Contains\<close> are the prefix and the contiguous
  sublist relations.
\<close>

definition toLowerByte :: "char \<Rightarrow> char" where
  "toLowerByte c =
     (if CHR ''A'' \<le> c \<and> c \<le> CHR ''Z'' then char_of (of_char c + (32::nat)) else c)"

definition ToLower :: "string \<Rightarrow> string" where
  "ToLower s = map toLowerByte s"

definition HasPrefix :: "string \<Rightarrow> string \<Rightarrow> bool" where
  "HasPrefix s pre = prefix pre s"

definition Contains :: "string \<Rightarrow> string \<Rightarrow> bool" where
  "Contains s substr = sublist substr s"

text \<open>
  A Go map is a finite map; \<^verbatim>\<open>len(m)\<close> is the number of its keys, and a nil map has
  none.
\<close>

definition len_map :: "('k, 'v) fmap \<Rightarrow> nat" where
  "len_map m = fcard (fmdom m)"

subsection \<open>The SDK resource shapes, restricted to the fields the source reads\<close>

record ResourceSKU =
  Name :: "string option"

record PrivateEndpointConnection =
  ID :: "string option"

record Properties =
  PrivateEndpointConnections :: "PrivateEndpointConnection option list"

text \<open>
  The fields every listed resource type has (\<^verbatim>\<open>armcognitiveservices.Account\<close>,
  \<^verbatim>\<open>armredis.ResourceInfo\<close>, \<^verbatim>\<open>armmysqlflexibleservers.Server\<close>, \<^verbatim>\<open>armkusto.Cluster\<close>,
  \<^verbatim>\<open>armsignalr.ResourceInfo\<close>, \<^verbatim>\<open>armcosmos.DatabaseAccountGetResults\<close>).
\<close>

record ArmResource =
  ID :: "string option"
  Name :: "string option"
  Type :: "string option"
  Location :: "string option"
  Tags :: "(string, string option) fmap"

record ResourceInfo = ArmResource +
  SKU :: "ResourceSKU option"
  Properties :: "Properties option"

record Location =
  IsZoneRedundant :: "bool option"

record DatabaseAccountGetProperties =
  Locations :: "Location option list"
  PrivateEndpointConnections :: "PrivateEndpointConnection option list"
  DatabaseAccountOfferType :: "string option"
  DisableLocalAuth :: "bool option"
  DisableKeyBasedMetadataWriteAccess :: "bool option"

record DatabaseAccountGetResults = ArmResource +
  Properties :: "DatabaseAccountGetProperties option"

text \<open>
  \<^verbatim>\<open>target interface{}\<close>: a value together with its dynamic type. \<open>OtherValue\<close> stands
  for every value of another dynamic type, the untyped nil included.
\<close>

datatype target =
    armsignalr_ResourceInfo "ResourceInfo option"
  | armcosmos_DatabaseAccountGetResults "DatabaseAccountGetResults option"
  | armcognitiveservices_Account "ArmResource option"
  | armredis_ResourceInfo "ArmResource option"
  | armmysqlflexibleservers_Server "ArmResource option"
  | armkusto_Cluster "ArmResource option"
  | OtherValue

fun isResourceInfo :: "target \<Rightarrow> bool" where
  "isResourceInfo (armsignalr_ResourceInfo p) = True"
| "isResourceInfo t = False"

fun isDatabaseAccountGetResults :: "target \<Rightarrow> bool" where
  "isDatabaseAccountGetResults (armcosmos_DatabaseAccountGetResults p) = True"
| "isDatabaseAccountGetResults t = False"

text \<open>\<^verbatim>\<open>target.(*armsignalr.ResourceInfo)\<close> and \<^verbatim>\<open>target.(*armcosmos.DatabaseAccountGetResults)\<close>.\<close>

fun assert_ResourceInfo :: "target \<Rightarrow> panic + ResourceInfo option" where
  "assert_ResourceInfo (armsignalr_ResourceInfo p) = Inr p"
| "assert_ResourceInfo t = Inl TypeAssertionPanic"

fun assert_DatabaseAccountGetResults :: "target \<Rightarrow> panic + DatabaseAccountGetResults option" where
  "assert_DatabaseAccountGetResults (armcosmos_DatabaseAccountGetResults p) = Inr p"
| "assert_DatabaseAccountGetResults t = Inl TypeAssertionPanic"

subsection \<open>Scan context and rules\<close>

text \<open>
  Modelled from the spec: the declaration of \<^verbatim>\<open>scanners.ScanContext\<close> is not among the
  sources. The spec gives it a mapping from lower-cased resource identifier to a
  "has diagnostics configured" boolean; the rules read it as
  \<^verbatim>\<open>scanContext.DiagnosticsSettings\<close>. The pointer handed to a rule is taken to be
  non-nil.
\<close>

record ScanContext =
  DiagnosticsSettings :: "(string, bool) fmap"

text \<open>
  Modelled from the spec: the declarations of \<^verbatim>\<open>scanners.AzureRule\<close> and of its category
  and impact constants are not among the sources; the fields are those of the composite
  literals in \<^verbatim>\<open>GetRules\<close>.

  An evaluator receives the scan context by pointer, so it could write to it: it is
  modelled in state-passing style and returns the context it leaves behind, next to
  either a panic or its \<open>(triggered, detail)\<close> pair.
\<close>

datatype RulesCategory =
    RulesCategoryHighAvailability
  | RulesCategoryMonitoringAndAlerting
  | RulesCategorySecurity
  | RulesCategoryGovernance

datatype Impact = ImpactHigh | ImpactMedium | ImpactLow

type_synonym EvalFn = "target \<Rightarrow> ScanContext \<Rightarrow> (panic + bool \<times> string) \<times> ScanContext"

record AzureRule =
  Id :: string
  Category :: RulesCategory
  Recommendation :: string
  Impact :: Impact
  Eval :: EvalFn
  Url :: string

section \<open>The SignalR rules\<close>

definition sigr_001_Eval :: EvalFn where
  "sigr_001_Eval target scanContext =
     (and_then (assert_ResourceInfo target) (\<lambda>service.
      and_then (deref service) (\<lambda>s.
      and_then (deref (ArmResource.ID s)) (\<lambda>id.
        let ok = (fmlookup (DiagnosticsSettings scanContext) (ToLower id) \<noteq> None)
        in Inr (\<not> ok, '''')))),
      scanContext)"

definition sigr_002_Eval :: EvalFn where
  "sigr_002_Eval target scanContext =
     (and_then (assert_ResourceInfo target) (\<lambda>i.
      and_then (deref i) (\<lambda>r.
      and_then (deref (SKU r)) (\<lambda>k.
      and_then (deref (ResourceSKU.Name k)) (\<lambda>sku.
        let zones = (if Contains sku ''Premium'' then True else False)
        in Inr (\<not> zones, ''''))))),
      scanContext)"

definition sigr_003_Eval :: EvalFn where
  "sigr_003_Eval target scanContext = (Inr (False, ''99.9%''), scanContext)"

definition sigr_004_Eval :: EvalFn where
  "sigr_004_Eval target scanContext =
     (and_then (assert_ResourceInfo target) (\<lambda>i.
      and_then (deref i) (\<lambda>r.
      and_then (deref (ResourceInfo.Properties r)) (\<lambda>props.
        let pe = (length (Properties.PrivateEndpointConnections props) > 0)
        in Inr (\<not> pe, '''')))),
      scanContext)"

definition sigr_005_Eval :: EvalFn where
  "sigr_005_Eval target scanContext =
     (and_then (assert_ResourceInfo target) (\<lambda>i.
      and_then (deref i) (\<lambda>r.
      and_then (deref (SKU r)) (\<lambda>k.
      and_then (deref (ResourceSKU.Name k)) (\<lambda>sku.
        Inr (False, sku))))),
      scanContext)"

definition sigr_006_Eval :: EvalFn where
  "sigr_006_Eval target scanContext =
     (and_then (assert_ResourceInfo target) (\<lambda>c.
      and_then (deref c) (\<lambda>r.
      and_then (deref (ArmResource.Name r)) (\<lambda>name.
        let caf = HasPrefix name ''sigr''
        in Inr (\<not> caf, '''')))),
      scanContext)"

definition sigr_007_Eval :: EvalFn where
  "sigr_007_Eval target scanContext =
     (and_then (assert_ResourceInfo target) (\<lambda>c.
      and_then (deref c) (\<lambda>r.
        Inr (len_map (Tags r) = 0, ''''))),
      scanContext)"

text \<open>
  \<^verbatim>\<open>SignalRScanner.GetRules\<close>: the entries of the map literal, in the order of the
  source.
\<close>

definition SignalRScanner_GetRules :: "(string \<times> AzureRule) list" where
  "SignalRScanner_GetRules =
    [(''sigr-001'', \<lparr>Id = ''sigr-001'', Category = RulesCategoryMonitoringAndAlerting,
        Recommendation = ''SignalR should have diagnostic settings enabled'',
        Impact = ImpactLow, Eval = sigr_001_Eval,
        Url = ''https://learn.microsoft.com/en-us/azure/azure-signalr/signalr-howto-diagnostic-logs''\<rparr>),
     (''sigr-002'', \<lparr>Id = ''sigr-002'', Category = RulesCategoryHighAvailability,
        Recommendation = ''SignalR should have availability zones enabled'',
        Impact = ImpactHigh, Eval = sigr_002_Eval,
        Url = ''https://learn.microsoft.com/en-us/azure/azure-signalr/availability-zones''\<rparr>),
     (''sigr-003'', \<lparr>Id = ''sigr-003'', Category = RulesCategoryHighAvailability,
        Recommendation = ''SignalR should have a SLA'',
        Impact = ImpactHigh, Eval = sigr_003_Eval,
        Url = ''https://www.azure.cn/en-us/support/sla/signalr-service/''\<rparr>),
     (''sigr-004'', \<lparr>Id = ''sigr-004'', Category = RulesCategorySecurity,
        Recommendation = ''SignalR should have private endpoints enabled'',
        Impact = ImpactHigh, Eval = sigr_004_Eval,
        Url = ''https://learn.microsoft.com/en-us/azure/azure-signalr/howto-private-endpoints''\<rparr>),
     (''sigr-005'', \<lparr>Id = ''sigr-005'', Category = RulesCategoryHighAvailability,
        Recommendation = ''SignalR SKU'',
        Impact = ImpactHigh, Eval = sigr_005_Eval,
        Url = ''https://azure.microsoft.com/en-us/pricing/details/signalr-service/''\<rparr>),
     (''sigr-006'', \<lparr>Id = ''sigr-006'', Category = RulesCategoryGovernance,
        Recommendation = ''SignalR Name should comply with naming conventions'',
        Impact = ImpactLow, Eval = sigr_006_Eval,
        Url = ''https://learn.microsoft.com/en-us/azure/cloud-adoption-framework/ready/azure-best-practices/resource-abbreviations''\<rparr>),
     (''sigr-007'', \<lparr>Id = ''sigr-007'', Category = RulesCategoryGovernance,
        Recommendation = ''SignalR should have tags'',
        Impact = ImpactLow, Eval = sigr_007_Eval,
        Url = ''https://learn.microsoft.com/en-us/azure/azure-resource-manager/management/tag-resources?tabs=json''\<rparr>)]"

section \<open>The CosmosDB rules\<close>

definition cosmos_001_Eval :: EvalFn where
  "cosmos_001_Eval target scanContext =
     (and_then (assert_DatabaseAccountGetResults target) (\<lambda>service.
      and_then (deref service) (\<lambda>s.
      and_then (deref (ArmResource.ID s)) (\<lambda>id.
        let ok = (fmlookup (DiagnosticsSettings scanContext) (ToLower id) \<noteq> None)
        in Inr (\<not> ok, '''')))),
      scanContext)"

text \<open>
  The \<^verbatim>\<open>for _, location := range i.Properties.Locations\<close> loop of cosmos-002, on the
  variables \<open>(availabilityZones, availabilityZonesNotEnabledInALocation,
  numberOfLocations)\<close>. The counter is a Go \<^verbatim>\<open>int\<close> that counts the elements of a
  slice, so it cannot overflow and is a \<open>nat\<close>.
\<close>

fun cosmos_002_loop ::
  "Location option list \<Rightarrow> bool \<times> bool \<times> nat \<Rightarrow> panic + bool \<times> bool \<times> nat" where
  "cosmos_002_loop [] st = Inr st"
| "cosmos_002_loop (location # rest)
      (availabilityZones, availabilityZonesNotEnabledInALocation, numberOfLocations) =
     and_then (deref location) (\<lambda>l.
     and_then (deref (IsZoneRedundant l)) (\<lambda>z.
       if z
       then cosmos_002_loop rest
              (True, availabilityZonesNotEnabledInALocation, numberOfLocations + 1)
       else cosmos_002_loop rest
              (availabilityZones, True, numberOfLocations + 1)))"

definition cosmos_002_Eval :: EvalFn where
  "cosmos_002_Eval target scanContext =
     (and_then (assert_DatabaseAccountGetResults target) (\<lambda>i.
      and_then (deref i) (\<lambda>r.
      and_then (deref (DatabaseAccountGetResults.Properties r)) (\<lambda>props.
      and_then (cosmos_002_loop (Locations props) (False, False, 0))
        (\<lambda>(availabilityZones, availabilityZonesNotEnabledInALocation, numberOfLocations).
          let zones = (availabilityZones \<and> numberOfLocations \<ge> 2
                        \<and> \<not> availabilityZonesNotEnabledInALocation)
          in Inr (\<not> zones, ''''))))),
      scanContext)"

text \<open>The loop of cosmos-003 also carries \<open>sla\<close>, as its first component.\<close>

fun cosmos_003_loop ::
  "Location option list \<Rightarrow> string \<times> bool \<times> bool \<times> nat
     \<Rightarrow> panic + string \<times> bool \<times> bool \<times> nat" where
  "cosmos_003_loop [] st = Inr st"
| "cosmos_003_loop (location # rest)
      (sla, availabilityZones, availabilityZonesNotEnabledInALocation, numberOfLocations) =
     and_then (deref location) (\<lambda>l.
     and_then (deref (IsZoneRedundant l)) (\<lambda>z.
       if z
       then cosmos_003_loop rest
              (''99.995%'', True, availabilityZonesNotEnabledInALocation, numberOfLocations + 1)
       else cosmos_003_loop rest
              (sla, availabilityZones, True, numberOfLocations + 1)))"

definition cosmos_003_Eval :: EvalFn where
  "cosmos_003_Eval target scanContext =
     (and_then (assert_DatabaseAccountGetResults target) (\<lambda>i.
      and_then (deref i) (\<lambda>r.
      and_then (deref (DatabaseAccountGetResults.Properties r)) (\<lambda>props.
      and_then (cosmos_003_loop (Locations props) (''99.99%'', False, False, 0))
        (\<lambda>(sla, availabilityZones, availabilityZonesNotEnabledInALocation, numberOfLocations).
          Inr (False,
               if availabilityZones \<and> numberOfLocations \<ge> 2
                    \<and> \<not> availabilityZonesNotEnabledInALocation
               then ''99.999%'' else sla))))),
      scanContext)"

definition cosmos_004_Eval :: EvalFn where
  "cosmos_004_Eval target scanContext =
     (and_then (assert_DatabaseAccountGetResults target) (\<lambda>i.
      and_then (deref i) (\<lambda>r.
      and_then (deref (DatabaseAccountGetResults.Properties r)) (\<lambda>props.
        let pe = (length (DatabaseAccountGetProperties.PrivateEndpointConnections props) > 0)
        in Inr (\<not> pe, '''')))),
      scanContext)"

definition cosmos_005_Eval :: EvalFn where
  "cosmos_005_Eval target scanContext =
     (and_then (assert_DatabaseAccountGetResults target) (\<lambda>i.
      and_then (deref i) (\<lambda>r.
      and_then (deref (DatabaseAccountGetResults.Properties r)) (\<lambda>props.
      and_then (deref (DatabaseAccountOfferType props)) (\<lambda>offer.
        Inr (False, offer))))),
      scanContext)"

definition cosmos_006_Eval :: EvalFn where
  "cosmos_006_Eval target scanContext =
     (and_then (assert_DatabaseAccountGetResults target) (\<lambda>c.
      and_then (deref c) (\<lambda>r.
      and_then (deref (ArmResource.Name r)) (\<lambda>name.
        let caf = HasPrefix name ''cosmos''
        in Inr (\<not> caf, '''')))),
      scanContext)"

definition cosmos_007_Eval :: EvalFn where
  "cosmos_007_Eval target scanContext =
     (and_then (assert_DatabaseAccountGetResults target) (\<lambda>c.
      and_then (deref c) (\<lambda>r.
        Inr (len_map (Tags r) = 0, ''''))),
      scanContext)"

definition cosmos_008_Eval :: EvalFn where
  "cosmos_008_Eval target scanContext =
     (and_then (assert_DatabaseAccountGetResults target) (\<lambda>c.
      and_then (deref c) (\<lambda>r.
      and_then (deref (DatabaseAccountGetResults.Properties r)) (\<lambda>props.
        let localAuth = (case DisableLocalAuth props of None \<Rightarrow> False | Some b \<Rightarrow> b)
        in Inr (\<not> localAuth, '''')))),
      scanContext)"

definition cosmos_009_Eval :: EvalFn where
  "cosmos_009_Eval target scanContext =
     (and_then (assert_DatabaseAccountGetResults target) (\<lambda>c.
      and_then (deref c) (\<lambda>r.
      and_then (deref (DatabaseAccountGetResults.Properties r)) (\<lambda>props.
        let disabled = (case DisableKeyBasedMetadataWriteAccess props of
                          None \<Rightarrow> False | Some b \<Rightarrow> b)
        in Inr (\<not> disabled, '''')))),
      scanContext)"

text \<open>\<^verbatim>\<open>CosmosDBScanner.GetRules\<close>, likewise.\<close>

definition CosmosDBScanner_GetRules :: "(string \<times> AzureRule) list" where
  "CosmosDBScanner_GetRules =
    [(''cosmos-001'', \<lparr>Id = ''cosmos-001'', Category = RulesCategoryMonitoringAndAlerting,
        Recommendation = ''CosmosDB should have diagnostic settings enabled'',
        Impact = ImpactLow, Eval = cosmos_001_Eval,
        Url = ''https://learn.microsoft.com/en-us/azure/cosmos-db/monitor-resource-logs''\<rparr>),
     (''cosmos-002'', \<lparr>Id = ''cosmos-002'', Category = RulesCategoryHighAvailability,
        Recommendation = ''CosmosDB should have availability zones enabled'',
        Impact = ImpactHigh, Eval = cosmos_002_Eval,
        Url = ''https://learn.microsoft.com/en-us/azure/cosmos-db/high-availability''\<rparr>),
     (''cosmos-003'', \<lparr>Id = ''cosmos-003'', Category = RulesCategoryHighAvailability,
        Recommendation = ''CosmosDB should have a SLA'',
        Impact = ImpactHigh, Eval = cosmos_003_Eval,
        Url = ''https://learn.microsoft.com/en-us/azure/cosmos-db/high-availability#slas''\<rparr>),
     (''cosmos-004'', \<lparr>Id = ''cosmos-004'', Category = RulesCategorySecurity,
        Recommendation = ''CosmosDB should have private endpoints enabled'',
        Impact = ImpactHigh, Eval = cosmos_004_Eval,
        Url = ''https://learn.microsoft.com/en-us/azure/cosmos-db/how-to-configure-private-endpoints''\<rparr>),
     (''cosmos-005'', \<lparr>Id = ''cosmos-005'', Category = RulesCategoryHighAvailability,
        Recommendation = ''CosmosDB SKU'',
        Impact = ImpactHigh, Eval = cosmos_005_Eval,
        Url = ''https://azure.microsoft.com/en-us/pricing/details/cosmos-db/autoscale-provisioned/''\<rparr>),
     (''cosmos-006'', \<lparr>Id = ''cosmos-006'', Category = RulesCategoryGovernance,
        Recommendation = ''CosmosDB Name should comply with naming conventions'',
        Impact = ImpactLow, Eval = cosmos_006_Eval,
        Url = ''https://learn.microsoft.com/en-us/azure/cloud-adoption-framework/ready/azure-best-practices/resource-abbreviations''\<rparr>),
     (''cosmos-007'', \<lparr>Id = ''cosmos-007'', Category = RulesCategoryGovernance,
        Recommendation = ''CosmosDB should have tags'',
        Impact = ImpactLow, Eval = cosmos_007_Eval,
        Url = ''https://learn.microsoft.com/en-us/azure/azure-resource-manager/management/tag-resources?tabs=json''\<rparr>),
     (''cosmos-008'', \<lparr>Id = ''cosmos-008'', Category = RulesCategorySecurity,
        Recommendation = ''CosmosDB should have local authentication disabled'',
        Impact = ImpactHigh, Eval = cosmos_008_Eval,
        Url = ''https://learn.microsoft.com/en-us/azure/cosmos-db/how-to-setup-rbac#disable-local-auth''\<rparr>),
     (''cosmos-009'', \<lparr>Id = ''cosmos-009'', Category = RulesCategorySecurity,
        Recommendation = ''CosmosDB: disable write operations on metadata resources (databases, containers, throughput) via account keys'',
        Impact = ImpactHigh, Eval = cosmos_009_Eval,
        Url = ''https://learn.microsoft.com/en-us/azure/cosmos-db/role-based-access-control#set-via-arm-template''\<rparr>)]"

section \<open>Rule engine and scanners\<close>

text \<open>
  Modelled from the spec: \<^verbatim>\<open>scanners.RuleEngine.EvaluateRules\<close> is not among the
  sources. By the spec it invokes the evaluation function of each rule of the catalog
  exactly once, in the order of the rule ids, and returns a mapping from rule id to
  \<open>(triggered, detail)\<close>. A panic of an evaluator ends the evaluation; the scan
  context is threaded through the evaluators.
\<close>

fun evaluateAll ::
  "(string \<times> AzureRule) list \<Rightarrow> target \<Rightarrow> ScanContext \<Rightarrow> (string, bool \<times> string) fmap
     \<Rightarrow> (panic + (string, bool \<times> string) fmap) \<times> ScanContext" where
  "evaluateAll [] target scanContext results = (Inr results, scanContext)"
| "evaluateAll ((k, rule) # rest) target scanContext results =
     (case Eval rule target scanContext of
        (Inl p, ctx') \<Rightarrow> (Inl p, ctx')
      | (Inr outcome, ctx') \<Rightarrow> evaluateAll rest target ctx' (fmupd k outcome results))"

definition EvaluateRules ::
  "(string \<times> AzureRule) list \<Rightarrow> target \<Rightarrow> ScanContext
     \<Rightarrow> (panic + (string, bool \<times> string) fmap) \<times> ScanContext" where
  "EvaluateRules rules target scanContext =
     evaluateAll (sort_key fst rules) target scanContext fmempty"

text \<open>
  The Resource Lister is the SDK pager, an external collaborator: it is given by the
  responses its successive \<^verbatim>\<open>NextPage\<close> calls return, and \<^verbatim>\<open>More\<close> holds as long as a
  response is left. A response is an error or a page with its \<^verbatim>\<open>Value\<close> slice.
\<close>

datatype error = ResponseError string

datatype 'a PageResponse = PageError error | Page "'a list"

text \<open>
  The loop \<^verbatim>\<open>for pager.More() { resp, err := pager.NextPage(ctx); ... }\<close> shared by
  \<^verbatim>\<open>listEventHubs\<close>, \<^verbatim>\<open>listRedis\<close>, \<^verbatim>\<open>listFlexiblePostgre\<close> and \<^verbatim>\<open>listClusters\<close>; the
  second argument is the slice appended to. The Go functions return \<^verbatim>\<open>(nil, err)\<close> or
  \<^verbatim>\<open>(items, nil)\<close>: \<open>Inl err\<close> or \<open>Inr items\<close>.
\<close>

fun pagerLoop :: "'a PageResponse list \<Rightarrow> 'a list \<Rightarrow> error + 'a list" where
  "pagerLoop [] items = Inr items"
| "pagerLoop (PageError err # rest) items = Inl err"
| "pagerLoop (Page val # rest) items = pagerLoop rest (items @ val)"

text \<open>
  \<^verbatim>\<open>scanners.ScannerConfig\<close> with the fields \<^verbatim>\<open>Scan\<close> reads. A scanner holds its config
  (set by \<^verbatim>\<open>Init\<close>, so non-nil), its SDK client, which gives the pager of a resource
  group, and its rule catalog: the \<^verbatim>\<open>GetRules\<close> of the four scanners below are not
  among the sources, so the catalog is a parameter.
\<close>

record ScannerConfig =
  SubscriptionID :: string
  SubscriptionName :: string

record Scanner =
  config :: ScannerConfig
  client :: "string \<Rightarrow> ArmResource option PageResponse list"
  GetRules :: "(string \<times> AzureRule) list"

text \<open>
  Modelled from the spec: \<^verbatim>\<open>scanners.AzureServiceResult\<close> is not among the sources. The
  fields are those \<^verbatim>\<open>Scan\<close> fills in; \<open>Rules\<close> holds the per-rule outcomes.
\<close>

record AzureServiceResult =
  SubscriptionID :: string
  SubscriptionName :: string
  ResourceGroup :: string
  ServiceName :: string
  Type :: string
  Location :: string
  Rules :: "(string, bool \<times> string) fmap"

text \<open>
  The four \<^verbatim>\<open>Scan\<close> methods of the sources (\<^verbatim>\<open>CognitiveScanner\<close>, \<^verbatim>\<open>RedisScanner\<close>,
  \<^verbatim>\<open>MySQLFlexibleScanner\<close>, \<^verbatim>\<open>DataExplorerScanner\<close>) are the same text up to the names
  of their variables and the SDK type of the listed items, which decides the dynamic type
  of the value handed to the rule engine.
\<close>

datatype ScannerVariant =
  CognitiveScanner | RedisScanner | MySQLFlexibleScanner | DataExplorerScanner

fun asTarget :: "ScannerVariant \<Rightarrow> ArmResource option \<Rightarrow> target" where
  "asTarget CognitiveScanner g = armcognitiveservices_Account g"
| "asTarget RedisScanner g = armredis_ResourceInfo g"
| "asTarget MySQLFlexibleScanner g = armmysqlflexibleservers_Server g"
| "asTarget DataExplorerScanner g = armkusto_Cluster g"

definition listByResourceGroup :: "Scanner \<Rightarrow> string \<Rightarrow> error + ArmResource option list" where
  "listByResourceGroup a resourceGroupName = pagerLoop (client a resourceGroupName) []"

text \<open>
  The loop \<^verbatim>\<open>for _, g := range items\<close> of \<^verbatim>\<open>Scan\<close>, on \<open>results\<close> and the scan
  context. The composite literal dereferences \<open>g\<close> and its \<open>Name\<close>, \<open>Type\<close> and
  \<open>Location\<close> after the rules have been evaluated.
\<close>

fun scanLoop ::
  "ScannerVariant \<Rightarrow> ScannerConfig \<Rightarrow> (string \<times> AzureRule) list \<Rightarrow> string
     \<Rightarrow> ArmResource option list \<Rightarrow> ScanContext \<Rightarrow> AzureServiceResult list
     \<Rightarrow> (panic + AzureServiceResult list) \<times> ScanContext" where
  "scanLoop v cfg rules resourceGroupName [] scanContext results = (Inr results, scanContext)"
| "scanLoop v cfg rules resourceGroupName (g # rest) scanContext results =
     (case EvaluateRules rules (asTarget v g) scanContext of
        (Inl p, ctx') \<Rightarrow> (Inl p, ctx')
      | (Inr rr, ctx') \<Rightarrow>
          (case and_then (deref g) (\<lambda>r.
                and_then (deref (ArmResource.Name r)) (\<lambda>name.
                and_then (deref (ArmResource.Type r)) (\<lambda>type.
                and_then (deref (ArmResource.Location r)) (\<lambda>location.
                  Inr \<lparr>SubscriptionID = ScannerConfig.SubscriptionID cfg,
                       SubscriptionName = ScannerConfig.SubscriptionName cfg,
                       ResourceGroup = resourceGroupName,
                       ServiceName = name,
                       Type = type,
                       Location = location,
                       Rules = rr\<rparr>)))) of
             Inl p \<Rightarrow> (Inl p, ctx')
           | Inr result \<Rightarrow>
               scanLoop v cfg rules resourceGroupName rest ctx' (results @ [result])))"

text \<open>
  \<^verbatim>\<open>Scan\<close> returns \<^verbatim>\<open>([]AzureServiceResult, error)\<close>: a pair of options, \<open>None\<close> for nil.
  The log line written by \<^verbatim>\<open>scanners.LogResourceGroupScan\<close> is not part of the model.
\<close>

definition Scan ::
  "ScannerVariant \<Rightarrow> Scanner \<Rightarrow> string \<Rightarrow> ScanContext
     \<Rightarrow> (panic + AzureServiceResult list option \<times> error option) \<times> ScanContext" where
  "Scan v a resourceGroupName scanContext =
     (case listByResourceGroup a resourceGroupName of
        Inl err \<Rightarrow> (Inr (None, Some err), scanContext)
      | Inr items \<Rightarrow>
          (case scanLoop v (config a) (GetRules a) resourceGroupName items scanContext [] of
             (Inl p, ctx') \<Rightarrow> (Inl p, ctx')
           | (Inr results, ctx') \<Rightarrow> (Inr (Some results, None), ctx')))"

section \<open>Predicates used in the statements\<close>


text \<open>
  A location (an element of \<^verbatim>\<open>Properties.Locations\<close>, a pointer) is zone-redundant, and
  it has its \<^verbatim>\<open>IsZoneRedundant\<close> flag.
\<close>

fun zoneRedundant :: "Location option \<Rightarrow> bool" where
  "zoneRedundant None = False"
| "zoneRedundant (Some l) = (IsZoneRedundant l = Some True)"

fun hasIsZoneRedundant :: "Location option \<Rightarrow> bool" where
  "hasIsZoneRedundant None = False"
| "hasIsZoneRedundant (Some l) = (IsZoneRedundant l \<noteq> None)"

definition account_locations :: "DatabaseAccountGetResults \<Rightarrow> Location option list" where
  "account_locations a =
     (case DatabaseAccountGetResults.Properties a of
        None \<Rightarrow> []
      | Some props \<Rightarrow> Locations props)"

definition locations_defined :: "DatabaseAccountGetResults \<Rightarrow> bool" where
  "locations_defined a =
     (case DatabaseAccountGetResults.Properties a of
        None \<Rightarrow> False
      | Some props \<Rightarrow> list_all hasIsZoneRedundant (Locations props))"

text \<open>No evaluator of the catalog writes to the scan context.\<close>

definition leaves_context_unchanged :: "(string \<times> AzureRule) list \<Rightarrow> bool" where
  "leaves_context_unchanged rules =
     list_all (\<lambda>(k, rule). \<forall>target ctx. snd (Eval rule target ctx) = ctx) rules"

text \<open>
  A listed item is a non-nil pointer to a resource with its name, type and location; and
  every evaluator of the catalog returns an outcome on every one of the items, whatever
  the scan context.
\<close>

fun has_identity :: "ArmResource option \<Rightarrow> bool" where
  "has_identity None = False"
| "has_identity (Some r) =
     (ArmResource.Name r \<noteq> None \<and> ArmResource.Type r \<noteq> None \<and> ArmResource.Location r \<noteq> None)"

definition evaluators_return ::
  "ScannerVariant \<Rightarrow> (string \<times> AzureRule) list \<Rightarrow> ArmResource option list \<Rightarrow> bool" where
  "evaluators_return v rules items =
     list_all (\<lambda>(k, rule).
       list_all (\<lambda>g. \<forall>ctx. \<exists>outcome. fst (Eval rule (asTarget v g) ctx) = Inr outcome) items) rules"

text \<open>The identity fields of a result, and those expected for a listed item.\<close>

definition identity_fields ::
  "AzureServiceResult \<Rightarrow> string \<times> string \<times> string \<times> string \<times> string \<times> string" where
  "identity_fields res =
     (SubscriptionID res, SubscriptionName res, ResourceGroup res,
      ServiceName res, AzureServiceResult.Type res, AzureServiceResult.Location res)"

definition expected_identity ::
  "ScannerConfig \<Rightarrow> string \<Rightarrow> ArmResource option
     \<Rightarrow> string \<times> string \<times> string \<times> string \<times> string \<times> string" where
  "expected_identity cfg resourceGroupName g =
     (ScannerConfig.SubscriptionID cfg, ScannerConfig.SubscriptionName cfg, resourceGroupName,
      the (ArmResource.Name (the g)), the (ArmResource.Type (the g)),
      the (ArmResource.Location (the g)))"

section \<open>Example inputs\<close>

text \<open>
  Modelled from the spec: the one-rule catalog \<^verbatim>\<open>has-tag\<close> of the spec's scenario
  (\<^verbatim>\<open>triggered = len(resource.tags) == 0\<close>), here for Cognitive Services accounts, whose
  own catalog is not among the sources.
\<close>

definition has_tag_Eval :: EvalFn where
  "has_tag_Eval target scanContext =
     (and_then (case target of armcognitiveservices_Account c \<Rightarrow> Inr c
                | _ \<Rightarrow> Inl TypeAssertionPanic) (\<lambda>c.
      and_then (deref c) (\<lambda>r.
        Inr (len_map (Tags r) = 0, ''''))),
      scanContext)"

definition has_tag_rules :: "(string \<times> AzureRule) list" where
  "has_tag_rules =
     [(''has-tag'', \<lparr>Id = ''has-tag'', Category = RulesCategoryGovernance,
         Recommendation = ''Resource should have tags'', Impact = ImpactLow,
         Eval = has_tag_Eval, Url = ''''\<rparr>)]"

definition example_account :: "string \<Rightarrow> ArmResource option" where
  "example_account name =
     Some \<lparr>ID = Some (''/subscriptions/S1/resourceGroups/rg1/accounts/'' @ name),
           Name = Some name,
           Type = Some ''Microsoft.CognitiveServices/accounts'',
           Location = Some ''westeurope'',
           Tags = fmempty\<rparr>"

definition unnamed_account :: "ArmResource option" where
  "unnamed_account =
     Some \<lparr>ID = Some ''/subscriptions/S1/resourceGroups/rg1/accounts/x'',
           Name = None,
           Type = Some ''Microsoft.CognitiveServices/accounts'',
           Location = Some ''westeurope'',
           Tags = fmempty\<rparr>"

definition example_config :: ScannerConfig where
  "example_config =
     \<lparr>ScannerConfig.SubscriptionID = ''S1'', ScannerConfig.SubscriptionName = ''Production''\<rparr>"

definition example_pages :: "ArmResource option list list" where
  "example_pages =
     [ [example_account ''a'', example_account ''b'', example_account ''c''],
       [example_account ''d'', example_account ''e''] ]"

text \<open>
  Three scanners over the same config and catalog: one whose resource group \<open>rg1\<close> lists
  in two successful pages of three and two accounts, one whose second page retrieval
  fails, and one whose only page holds an account without a name.
\<close>

definition example_scanner :: Scanner where
  "example_scanner =
     \<lparr>config = example_config,
      client = (\<lambda>resourceGroupName.
        if resourceGroupName = ''rg1'' then map Page example_pages else [Page []]),
      GetRules = has_tag_rules\<rparr>"

definition failing_scanner :: Scanner where
  "failing_scanner =
     \<lparr>config = example_config,
      client = (\<lambda>resourceGroupName.
        [Page [example_account ''a''], PageError (ResponseError ''throttled''),
         Page [example_account ''b'']]),
      GetRules = has_tag_rules\<rparr>"

definition unnamed_scanner :: Scanner where
  "unnamed_scanner =
     \<lparr>config = example_config,
      client = (\<lambda>resourceGroupName. [Page [unnamed_account]]),
      GetRules = has_tag_rules\<rparr>"

definition example_context :: ScanContext where
  "example_context =
     \<lparr>DiagnosticsSettings =
        fmupd ''/subscriptions/s1/resourcegroups/rg1/signalr/sigr-a'' True fmempty\<rparr>"

definition example_signalr :: ResourceInfo where
  "example_signalr =
     \<lparr>ID = Some ''/subscriptions/S1/resourceGroups/rg1/signalR/sigr-a'',
      Name = Some ''sigr-a'',
      Type = Some ''Microsoft.SignalRService/SignalR'',
      Location = Some ''westeurope'',
      Tags = fmempty,
      SKU = Some \<lparr>ResourceSKU.Name = Some ''Premium_P1''\<rparr>,
      ResourceInfo.Properties = Some \<lparr>Properties.PrivateEndpointConnections = []\<rparr>\<rparr>"


definition cosmos_account :: "Location option list \<Rightarrow> DatabaseAccountGetResults" where
  "cosmos_account locations =
     \<lparr>ID = Some ''/subscriptions/S1/resourceGroups/rg1/databaseAccounts/cosmos-a'',
      Name = Some ''cosmos-a'',
      Type = Some ''Microsoft.DocumentDB/databaseAccounts'',
      Location = Some ''westeurope'',
      Tags = fmempty,
      DatabaseAccountGetResults.Properties =
        Some \<lparr>Locations = locations,
              DatabaseAccountGetProperties.PrivateEndpointConnections = [],
              DatabaseAccountOfferType = Some ''Standard'',
              DisableLocalAuth = None,
              DisableKeyBasedMetadataWriteAccess = None\<rparr>\<rparr>"

section \<open>Auxiliary facts\<close>

lemmas eval_defs = and_then_def
  sigr_001_Eval_def sigr_002_Eval_def sigr_003_Eval_def sigr_004_Eval_def sigr_005_Eval_def
  sigr_006_Eval_def sigr_007_Eval_def
  cosmos_001_Eval_def cosmos_002_Eval_def cosmos_003_Eval_def cosmos_004_Eval_def
  cosmos_005_Eval_def cosmos_006_Eval_def cosmos_007_Eval_def cosmos_008_Eval_def
  cosmos_009_Eval_def

subsection \<open>Lower-casing of the example identifiers\<close>




subsection \<open>The location loops of cosmos-002 and cosmos-003\<close>

lemma cosmos_002_loop_defined:
  "list_all hasIsZoneRedundant ls \<Longrightarrow>
   cosmos_002_loop ls (az, ne, n) =
     Inr (az \<or> list_ex zoneRedundant ls, ne \<or> \<not> list_all zoneRedundant ls, n + length ls)"
proof (induction ls arbitrary: az ne n)
  case Nil
  then show ?case by simp
next
  case (Cons l ls)
  then obtain loc z where l: "l = Some loc" "IsZoneRedundant loc = Some z"
    by (cases l) auto
  with Cons show ?case by (cases z) (simp_all add: and_then_def)
qed

lemma cosmos_003_loop_defined:
  "list_all hasIsZoneRedundant ls \<Longrightarrow>
   cosmos_003_loop ls (sla, az, ne, n) =
     Inr (if list_ex zoneRedundant ls then ''99.995%'' else sla,
          az \<or> list_ex zoneRedundant ls, ne \<or> \<not> list_all zoneRedundant ls, n + length ls)"
proof (induction ls arbitrary: sla az ne n)
  case Nil
  then show ?case by simp
next
  case (Cons l ls)
  then obtain loc z where l: "l = Some loc" "IsZoneRedundant loc = Some z"
    by (cases l) auto
  with Cons show ?case by (cases z) (simp_all add: and_then_def)
qed

lemma two_redundant_locations:
  "list_all zoneRedundant ls \<Longrightarrow> 2 \<le> length ls \<Longrightarrow> list_ex zoneRedundant ls"
  by (cases ls) auto

lemma cosmos_002_defined:
  assumes "locations_defined a"
  shows "fst (cosmos_002_Eval (armcosmos_DatabaseAccountGetResults (Some a)) ctx) =
     Inr (\<not> (length (account_locations a) \<ge> 2 \<and> list_all zoneRedundant (account_locations a)),
          '''')"
proof -
  from assms obtain props where p: "DatabaseAccountGetResults.Properties a = Some props"
    "list_all hasIsZoneRedundant (Locations props)"
    by (auto simp: locations_defined_def split: option.splits)
  then show ?thesis
    using two_redundant_locations [of "Locations props"]
    by (auto simp: cosmos_002_Eval_def and_then_def cosmos_002_loop_defined account_locations_def)
qed

lemma cosmos_003_defined:
  assumes "locations_defined a"
  shows "fst (cosmos_003_Eval (armcosmos_DatabaseAccountGetResults (Some a)) ctx) =
     Inr (False,
       if length (account_locations a) \<ge> 2 \<and> list_all zoneRedundant (account_locations a)
       then ''99.999%''
       else if list_ex zoneRedundant (account_locations a) then ''99.995%'' else ''99.99%'')"
proof -
  from assms obtain props where p: "DatabaseAccountGetResults.Properties a = Some props"
    "list_all hasIsZoneRedundant (Locations props)"
    by (auto simp: locations_defined_def split: option.splits)
  then show ?thesis
    using two_redundant_locations [of "Locations props"]
    by (auto simp: cosmos_003_Eval_def and_then_def cosmos_003_loop_defined account_locations_def)
qed

subsection \<open>Listing\<close>

lemma pagerLoop_pages: "pagerLoop (map Page vs) items = Inr (items @ concat vs)"
  by (induction vs arbitrary: items) simp_all

lemma pagerLoop_error:
  "pagerLoop (map Page vs @ PageError err # rest) items = Inl err"
  by (induction vs arbitrary: items) simp_all

subsection \<open>The scan context across a scan\<close>

lemma evaluateAll_frame:
  "list_all (\<lambda>(k, rule). \<forall>target ctx. snd (Eval rule target ctx) = ctx) rules \<Longrightarrow>
   snd (evaluateAll rules target ctx acc) = ctx"
proof (induction rules arbitrary: acc)
  case Nil
  then show ?case by simp
next
  case (Cons kr rules)
  obtain k rule where kr: "kr = (k, rule)" by (cases kr)
  from Cons.prems kr have "snd (Eval rule target ctx) = ctx" by simp
  then obtain res where e: "Eval rule target ctx = (res, ctx)"
    by (cases "Eval rule target ctx") simp
  from Cons.prems have rest:
    "list_all (\<lambda>(k, rule). \<forall>target ctx. snd (Eval rule target ctx) = ctx) rules"
    by simp
  show ?case
    using Cons.IH [OF rest] by (cases res) (simp_all add: kr e)
qed

lemma list_all_sort_key: "list_all P (sort_key f xs) = list_all P xs"
  by (simp add: list_all_iff)

lemma EvaluateRules_frame:
  "leaves_context_unchanged rules \<Longrightarrow> snd (EvaluateRules rules target ctx) = ctx"
  unfolding EvaluateRules_def leaves_context_unchanged_def
  by (rule evaluateAll_frame) (simp add: list_all_sort_key)

lemma scanLoop_frame:
  "leaves_context_unchanged rules \<Longrightarrow> snd (scanLoop v cfg rules rg items ctx results) = ctx"
proof (induction items arbitrary: results)
  case Nil
  then show ?case by simp
next
  case (Cons g items)
  from EvaluateRules_frame [OF Cons.prems]
  obtain res where e: "EvaluateRules rules (asTarget v g) ctx = (res, ctx)"
    by (cases "EvaluateRules rules (asTarget v g) ctx") (metis snd_conv)
  show ?case
    using Cons.IH [OF Cons.prems] by (simp add: e split: sum.splits)
qed

lemma Scan_frame:
  "leaves_context_unchanged (GetRules a) \<Longrightarrow> snd (Scan v a rg ctx) = ctx"
  using scanLoop_frame [of "GetRules a" v "config a" rg _ ctx "[]"]
  by (auto simp: Scan_def split: sum.splits prod.splits) (metis snd_conv)+

lemma has_tag_rules_frame: "leaves_context_unchanged has_tag_rules"
  by (simp add: leaves_context_unchanged_def has_tag_rules_def has_tag_Eval_def)

subsection \<open>A scan of well-formed items\<close>

lemma evaluateAll_returns:
  "list_all (\<lambda>(k, rule). \<forall>ctx. \<exists>outcome. fst (Eval rule target ctx) = Inr outcome) rules \<Longrightarrow>
   \<exists>rr ctx'. evaluateAll rules target ctx acc = (Inr rr, ctx')"
proof (induction rules arbitrary: ctx acc)
  case Nil
  then show ?case by simp
next
  case (Cons kr rules)
  obtain k rule where kr: "kr = (k, rule)" by (cases kr)
  from Cons.prems kr have "\<exists>outcome. fst (Eval rule target ctx) = Inr outcome"
    by (simp del: split_paired_Ex split_paired_All)
  then obtain outcome where "fst (Eval rule target ctx) = Inr outcome" by blast
  then obtain ctx1 where e: "Eval rule target ctx = (Inr outcome, ctx1)"
    by (cases "Eval rule target ctx") simp
  from Cons.prems have rest:
    "list_all (\<lambda>(k, rule). \<forall>ctx. \<exists>outcome. fst (Eval rule target ctx) = Inr outcome) rules"
    by simp
  show ?case
    using Cons.IH [OF rest, of ctx1 "fmupd k outcome acc"] by (simp add: kr e)
qed

lemma EvaluateRules_returns:
  assumes "evaluators_return v rules items" and "g \<in> set items"
  shows "\<exists>rr ctx'. EvaluateRules rules (asTarget v g) ctx = (Inr rr, ctx')"
  unfolding EvaluateRules_def
proof (rule evaluateAll_returns)
  show "list_all (\<lambda>(k, rule). \<forall>ctx. \<exists>outcome. fst (Eval rule (asTarget v g) ctx) = Inr outcome)
     (sort_key fst rules)"
    using assms by (auto simp: evaluators_return_def list_all_iff)
qed

lemma evaluators_return_tl:
  "evaluators_return v rules (g # items) \<Longrightarrow> evaluators_return v rules items"
  by (auto simp: evaluators_return_def list_all_iff)

lemma scanLoop_returns:
  "list_all has_identity items \<Longrightarrow> evaluators_return v rules items \<Longrightarrow>
   \<exists>new ctx'. scanLoop v cfg rules rg items ctx results = (Inr (results @ new), ctx') \<and>
      map identity_fields new = map (expected_identity cfg rg) items"
proof (induction items arbitrary: ctx results)
  case Nil
  then show ?case by simp
next
  case (Cons g items)
  from EvaluateRules_returns [OF Cons.prems(2), of g ctx]
  obtain rr ctx1 where e: "EvaluateRules rules (asTarget v g) ctx = (Inr rr, ctx1)" by auto
  from Cons.prems(1) obtain r name type location where g:
    "g = Some r" "ArmResource.Name r = Some name" "ArmResource.Type r = Some type"
    "ArmResource.Location r = Some location"
    by (cases g) auto
  define result where "result =
     \<lparr>SubscriptionID = ScannerConfig.SubscriptionID cfg,
      SubscriptionName = ScannerConfig.SubscriptionName cfg,
      ResourceGroup = rg, ServiceName = name, Type = type, Location = location, Rules = rr\<rparr>"
  have step: "scanLoop v cfg rules rg (g # items) ctx results =
      scanLoop v cfg rules rg items ctx1 (results @ [result])"
    using e by (simp add: g and_then_def result_def)
  have id: "identity_fields result = expected_identity cfg rg g"
    by (simp add: identity_fields_def expected_identity_def result_def g)
  from Cons.prems have "list_all has_identity items" "evaluators_return v rules items"
    by (auto dest: evaluators_return_tl)
  from Cons.IH [OF this, of ctx1 "results @ [result]"]
  obtain new ctx' where
    "scanLoop v cfg rules rg items ctx1 (results @ [result]) =
       (Inr ((results @ [result]) @ new), ctx')"
    "map identity_fields new = map (expected_identity cfg rg) items"
    by auto
  with step id show ?case
    by (intro exI [of _ "result # new"] exI [of _ ctx']) simp
qed

lemma example_has_identity: "list_all has_identity (concat example_pages)"
  by (simp add: example_pages_def example_account_def)

lemma example_evaluators_return:
  "evaluators_return CognitiveScanner has_tag_rules (concat example_pages)"
  by (simp add: evaluators_return_def has_tag_rules_def has_tag_Eval_def example_pages_def
      example_account_def and_then_def)

section \<open>The claims\<close>

text \<open>
  Claim C1. For every scanner variant and resource group: when a page retrieval of the
  listing fails, after any number of successful pages, \<open>Scan\<close> returns the nil slice
  with that error and leaves the scan context as it was; and whenever \<open>Scan\<close> returns a
  non-nil error, the returned slice is nil, so no partial results come with an error.
\<close>

theorem scan_pagination_error_all_or_nothing:
  "(client a rg = map Page vs @ PageError err # rest \<longrightarrow>
      Scan v a rg ctx = (Inr (None, Some err), ctx)) \<and>
   (fst (Scan v a rg ctx) = Inr (results, Some e) \<longrightarrow> results = None)"
  by (auto simp: Scan_def listByResourceGroup_def pagerLoop_error split: sum.splits prod.splits)

theorem scan_pagination_error_witness:
  "client failing_scanner ''rg1'' =
     map Page [ [example_account ''a''] ] @ PageError (ResponseError ''throttled'')
       # [Page [example_account ''b'']] \<and>
   Scan CognitiveScanner failing_scanner ''rg1'' example_context =
     (Inr (None, Some (ResponseError ''throttled'')), example_context)"
  using scan_pagination_error_all_or_nothing
    [of failing_scanner "''rg1''" "[ [example_account ''a''] ]" "ResponseError ''throttled''"
      "[Page [example_account ''b'']]" CognitiveScanner example_context None
      "ResponseError ''throttled''"]
  by (simp add: failing_scanner_def)

text \<open>
  Claim C2, amended. For every scanner variant and every sequence of successful pages
  whose items are non-nil resources with a name, a type and a location, and on which
  every evaluator of the scanner's catalog returns an outcome: \<open>Scan\<close> returns a nil
  error and exactly one result per listed item, in listing order, whose subscription id
  and name are those of the config, whose resource group is the argument, and whose
  service name, type and location are the item's. With no item listed the result
  sequence is empty (and not nil).
\<close>

theorem scan_one_result_per_item:
  assumes "client a rg = map Page vs"
    and "list_all has_identity (concat vs)"
    and "evaluators_return v (GetRules a) (concat vs)"
  shows "\<exists>results ctx'. Scan v a rg ctx = (Inr (Some results, None), ctx') \<and>
      map identity_fields results = map (expected_identity (config a) rg) (concat vs)"
  using scanLoop_returns [OF assms(2,3), of "config a" rg ctx "[]"]
  by (auto simp: Scan_def listByResourceGroup_def assms(1) pagerLoop_pages)

theorem scan_one_result_per_item_witness:
  "client example_scanner ''rg1'' = map Page example_pages \<and>
   list_all has_identity (concat example_pages) \<and>
   evaluators_return CognitiveScanner (GetRules example_scanner) (concat example_pages) \<and>
   (\<exists>results ctx'.
      Scan CognitiveScanner example_scanner ''rg1'' example_context =
        (Inr (Some results, None), ctx') \<and>
      length results = 5 \<and>
      map ServiceName results = [''a'', ''b'', ''c'', ''d'', ''e''])"
proof -
  have h1: "client example_scanner ''rg1'' = map Page example_pages"
    by (simp add: example_scanner_def)
  have h3: "evaluators_return CognitiveScanner (GetRules example_scanner) (concat example_pages)"
    using example_evaluators_return by (simp add: example_scanner_def)
  from scan_one_result_per_item [OF h1 example_has_identity h3, of example_context]
  obtain results ctx' where r:
    "Scan CognitiveScanner example_scanner ''rg1'' example_context =
       (Inr (Some results, None), ctx')"
    "map identity_fields results =
       map (expected_identity (config example_scanner) ''rg1'') (concat example_pages)"
    by blast
  from r(2) have "map (fst \<circ> snd \<circ> snd \<circ> snd) (map identity_fields results) =
      [''a'', ''b'', ''c'', ''d'', ''e'']"
    by (simp add: expected_identity_def example_pages_def example_account_def)
  then have n: "map ServiceName results = [''a'', ''b'', ''c'', ''d'', ''e'']"
    by (simp add: identity_fields_def comp_def)
  then have "length (map ServiceName results) = 5" by simp
  then have "length results = 5" by simp
  with r(1) n h1 h3 example_has_identity show ?thesis by simp
qed

text \<open>
  Without these preconditions the statement fails: a successful page holding an account
  whose \<open>Name\<close> is nil makes \<open>Scan\<close> panic at \<^verbatim>\<open>*eventHub.Name\<close>, so it returns no
  result at all.
\<close>

theorem scan_unnamed_item_panics:
  "client unnamed_scanner ''rg1'' = map Page [ [unnamed_account] ] \<and>
   Scan CognitiveScanner unnamed_scanner ''rg1'' example_context =
     (Inl NilDereference, example_context)"
  by (simp add: Scan_def listByResourceGroup_def unnamed_scanner_def unnamed_account_def
      EvaluateRules_def has_tag_rules_def has_tag_Eval_def and_then_def)



text \<open>
  Claim C4. Every evaluator should return an outcome when an optional field of a
  correctly typed resource is nil. The code does so in cosmos-008, which guards
  \<^verbatim>\<open>DisableLocalAuth\<close>, but not in cosmos-002 and sigr-002: a location whose
  \<^verbatim>\<open>IsZoneRedundant\<close> is nil and a SKU whose \<^verbatim>\<open>Name\<close> is nil make them panic.
\<close>

theorem optional_field_nil_panics:
  "fst (cosmos_002_Eval
         (armcosmos_DatabaseAccountGetResults
            (Some (cosmos_account [Some \<lparr>IsZoneRedundant = None\<rparr>])))
         example_context) = Inl NilDereference \<and>
   fst (sigr_002_Eval
         (armsignalr_ResourceInfo
            (Some (example_signalr\<lparr>SKU := Some \<lparr>ResourceSKU.Name = None\<rparr>\<rparr>)))
         example_context) = Inl NilDereference \<and>
   fst (cosmos_008_Eval
         (armcosmos_DatabaseAccountGetResults (Some (cosmos_account [])))
         example_context) = Inr (True, '''')"
  by (simp add: eval_defs cosmos_account_def example_signalr_def)

text \<open>
  Claim C5. Every evaluator of the SignalR and CosmosDB catalogs that inspects its target
  (all but sigr-003, which ignores it) panics on its type assertion when the target's
  dynamic type is not the pointer type of the catalog; it returns no outcome, and the
  scan context is as it was.
\<close>

theorem type_mismatch_panics:
  "((k, rule) \<in> set SignalRScanner_GetRules \<and> k \<noteq> ''sigr-003'' \<and> \<not> isResourceInfo target \<longrightarrow>
      Eval rule target ctx = (Inl TypeAssertionPanic, ctx)) \<and>
   ((k, rule) \<in> set CosmosDBScanner_GetRules \<and> \<not> isDatabaseAccountGetResults target \<longrightarrow>
      Eval rule target ctx = (Inl TypeAssertionPanic, ctx))"
  by (cases target) (auto simp: SignalRScanner_GetRules_def CosmosDBScanner_GetRules_def eval_defs)

theorem type_mismatch_panics_witness:
  "(''sigr-002'', snd (SignalRScanner_GetRules ! 1)) \<in> set SignalRScanner_GetRules \<and>
   ''sigr-002'' \<noteq> ''sigr-003'' \<and>
   \<not> isResourceInfo OtherValue \<and>
   Eval (snd (SignalRScanner_GetRules ! 1)) OtherValue example_context =
     (Inl TypeAssertionPanic, example_context) \<and>
   (''cosmos-001'', snd (CosmosDBScanner_GetRules ! 0)) \<in> set CosmosDBScanner_GetRules \<and>
   \<not> isDatabaseAccountGetResults (armsignalr_ResourceInfo (Some example_signalr)) \<and>
   Eval (snd (CosmosDBScanner_GetRules ! 0)) (armsignalr_ResourceInfo (Some example_signalr))
     example_context = (Inl TypeAssertionPanic, example_context)"
proof -
  have m1: "(''sigr-002'', snd (SignalRScanner_GetRules ! 1)) \<in> set SignalRScanner_GetRules"
    by (simp add: SignalRScanner_GetRules_def)
  have m2: "(''cosmos-001'', snd (CosmosDBScanner_GetRules ! 0)) \<in> set CosmosDBScanner_GetRules"
    by (simp add: CosmosDBScanner_GetRules_def)
  from type_mismatch_panics
    [of "''sigr-002''" "snd (SignalRScanner_GetRules ! 1)" OtherValue example_context] m1
  have e1: "Eval (snd (SignalRScanner_GetRules ! 1)) OtherValue example_context =
     (Inl TypeAssertionPanic, example_context)"
    by simp
  from type_mismatch_panics
    [of "''cosmos-001''" "snd (CosmosDBScanner_GetRules ! 0)"
      "armsignalr_ResourceInfo (Some example_signalr)" example_context] m2
  have e2: "Eval (snd (CosmosDBScanner_GetRules ! 0))
      (armsignalr_ResourceInfo (Some example_signalr)) example_context =
     (Inl TypeAssertionPanic, example_context)"
    by simp
  from m1 m2 e1 e2 show ?thesis by simp
qed


text \<open>
  Claim C7. In the SignalR and in the CosmosDB catalog the keys of the map literal are
  pairwise distinct, and each entry's \<open>Id\<close> is the key it is stored under (so the ids
  are pairwise distinct as well).
\<close>

theorem catalog_ids_unique_and_keyed:
  "distinct (map fst SignalRScanner_GetRules) \<and>
   map (Id \<circ> snd) SignalRScanner_GetRules = map fst SignalRScanner_GetRules \<and>
   distinct (map fst CosmosDBScanner_GetRules) \<and>
   map (Id \<circ> snd) CosmosDBScanner_GetRules = map fst CosmosDBScanner_GetRules"
  by (simp add: SignalRScanner_GetRules_def CosmosDBScanner_GetRules_def)

text \<open>
  Claim C8. Every evaluator of the SignalR and CosmosDB catalogs, on every target and
  every scan context, leaves the scan context as it was, also when it panics; its result
  is a function of the target and the scan context alone.
\<close>

theorem evaluators_leave_context_unchanged:
  "(k, rule) \<in> set (SignalRScanner_GetRules @ CosmosDBScanner_GetRules) \<Longrightarrow>
   snd (Eval rule target ctx) = ctx \<and>
   (target' = target \<and> ctx' = ctx \<longrightarrow>
      fst (Eval rule target' ctx') = fst (Eval rule target ctx))"
  by (auto simp: SignalRScanner_GetRules_def CosmosDBScanner_GetRules_def eval_defs)

theorem evaluators_leave_context_unchanged_witness:
  "(''cosmos-003'', snd (CosmosDBScanner_GetRules ! 2))
     \<in> set (SignalRScanner_GetRules @ CosmosDBScanner_GetRules) \<and>
   snd (Eval (snd (CosmosDBScanner_GetRules ! 2))
          (armcosmos_DatabaseAccountGetResults (Some (cosmos_account []))) example_context) =
     example_context"
proof -
  have m: "(''cosmos-003'', snd (CosmosDBScanner_GetRules ! 2))
     \<in> set (SignalRScanner_GetRules @ CosmosDBScanner_GetRules)"
    by (simp add: CosmosDBScanner_GetRules_def)
  from evaluators_leave_context_unchanged [OF m] m show ?thesis by simp
qed

text \<open>
  Claim C9. For every scanner variant, config, resource group and scan context, and a
  catalog whose evaluators do not write to the scan context (as the spec requires of
  every rule): a second \<open>Scan\<close> of the same, unchanged client, run on the scan context
  the first one left, returns what the first returned: the same results with the same
  per-rule outcomes, or the same error or panic.
\<close>

theorem scan_twice_same_results:
  "leaves_context_unchanged (GetRules a) \<Longrightarrow>
   fst (Scan v a rg (snd (Scan v a rg ctx))) = fst (Scan v a rg ctx)"
  by (simp add: Scan_frame)

theorem scan_twice_same_results_witness:
  "leaves_context_unchanged (GetRules example_scanner) \<and>
   fst (Scan CognitiveScanner example_scanner ''rg1''
          (snd (Scan CognitiveScanner example_scanner ''rg1'' example_context))) =
   fst (Scan CognitiveScanner example_scanner ''rg1'' example_context)"
proof -
  have h: "leaves_context_unchanged (GetRules example_scanner)"
    using has_tag_rules_frame by (simp add: example_scanner_def)
  from scan_twice_same_results [OF h, of CognitiveScanner "''rg1''" example_context] h
  show ?thesis by simp
qed

text \<open>
  Claim C10. For every CosmosDB account whose properties are present and whose locations
  all are non-nil with a non-nil \<open>IsZoneRedundant\<close>: cosmos-002 and cosmos-003 both
  return; cosmos-003 is never triggered; cosmos-002 is not triggered exactly when there
  are at least two locations and all are zone-redundant; the detail of cosmos-003 is
  \<open>99.999%\<close> exactly when cosmos-002 is not triggered, \<open>99.995%\<close> when some location is
  zone-redundant and cosmos-002 is triggered, and \<open>99.99%\<close> when no location is
  zone-redundant.
\<close>

theorem cosmos_sla_consistent_with_zones:
  assumes "locations_defined a"
  shows "\<exists>triggered sla.
      fst (cosmos_002_Eval (armcosmos_DatabaseAccountGetResults (Some a)) ctx) =
        Inr (triggered, '''') \<and>
      fst (cosmos_003_Eval (armcosmos_DatabaseAccountGetResults (Some a)) ctx) =
        Inr (False, sla) \<and>
      (\<not> triggered \<longleftrightarrow>
         length (account_locations a) \<ge> 2 \<and> list_all zoneRedundant (account_locations a)) \<and>
      (sla = ''99.999%'' \<longleftrightarrow> \<not> triggered) \<and>
      (list_ex zoneRedundant (account_locations a) \<and> triggered \<longrightarrow> sla = ''99.995%'') \<and>
      (\<not> list_ex zoneRedundant (account_locations a) \<longrightarrow> sla = ''99.99%'')"
  using cosmos_002_defined [OF assms, of ctx] cosmos_003_defined [OF assms, of ctx]
  by (cases "account_locations a") auto

theorem cosmos_sla_consistent_with_zones_witness:
  "locations_defined
     (cosmos_account [Some \<lparr>IsZoneRedundant = Some True\<rparr>, Some \<lparr>IsZoneRedundant = Some False\<rparr>]) \<and>
   fst (cosmos_002_Eval
         (armcosmos_DatabaseAccountGetResults
            (Some (cosmos_account
               [Some \<lparr>IsZoneRedundant = Some True\<rparr>, Some \<lparr>IsZoneRedundant = Some False\<rparr>])))
         example_context) = Inr (True, '''') \<and>
   fst (cosmos_003_Eval
         (armcosmos_DatabaseAccountGetResults
            (Some (cosmos_account
               [Some \<lparr>IsZoneRedundant = Some True\<rparr>, Some \<lparr>IsZoneRedundant = Some False\<rparr>])))
         example_context) = Inr (False, ''99.995%'')"
proof -
  have h: "locations_defined
     (cosmos_account [Some \<lparr>IsZoneRedundant = Some True\<rparr>, Some \<lparr>IsZoneRedundant = Some False\<rparr>])"
    by (simp add: locations_defined_def cosmos_account_def)
  from cosmos_sla_consistent_with_zones [OF h, of example_context] h
  show ?thesis
    by (auto simp: account_locations_def cosmos_account_def)
qed

end
